theory Spec2Isabelle
  imports Main "HOL-Library.Char_ord" "HOL-Library.List_Lexorder"
begin

section \<open>Errors\<close>

text \<open>
  Every exception the modelled code raises is a \<open>ValueError\<close>, told apart by its message,
  or an \<open>IndexError\<close> from indexing a list out of range. The message kinds are
  the raise sites of the source; the specification calls \<open>MissingBaseGroup\<close> a
  ConfigurationError, \<open>NoMatchLatest\<close> and \<open>NoMatchAny\<close> a PatternError,
  \<open>BadRevision\<close> and \<open>BadEpoch\<close> a FormatError and \<open>NotConforming\<close> a ValidationError.
\<close>

datatype style = Pep440 | SemVer | Pvp

datatype value_error =
    MissingBaseGroup
  | NoMatchLatest
  | NoMatchAny
  | BadRevision
  | BadEpoch
  | NotConforming style
  | InvalidLiteral
  | YearOutOfRange
  | FieldOutOfRange

datatype error = ValueError value_error | IndexError | TypeError | ImportError

section \<open>Strings and integers of the host language\<close>

text \<open>
  Strings are lists of 8-bit characters; the character classes below are the ASCII ones.
\<close>

definition is_digit :: "char \<Rightarrow> bool" where
  "is_digit c = (CHR ''0'' \<le> c \<and> c \<le> CHR ''9'')"

definition is_space :: "char \<Rightarrow> bool" where
  "is_space c = (c \<in> set [CHR 0x09, CHR 0x0A, CHR 0x0B, CHR 0x0C, CHR 0x0D,
                           CHR 0x1C, CHR 0x1D, CHR 0x1E, CHR 0x1F, CHR 0x20])"

definition strip :: "string \<Rightarrow> string" where
  "strip s = rev (dropWhile is_space (rev (dropWhile is_space s)))"

definition lower_char :: "char \<Rightarrow> char" where
  "lower_char c = (if CHR ''A'' \<le> c \<and> c \<le> CHR ''Z'' then char_of (of_char c + (32::nat)) else c)"

definition lower :: "string \<Rightarrow> string" where
  "lower s = map lower_char s"

text \<open>\<open>sep.join(parts)\<close>.\<close>

fun join :: "string \<Rightarrow> string list \<Rightarrow> string" where
  "join sep [] = []"
| "join sep [x] = x"
| "join sep (x # y # ys) = x @ sep @ join sep (y # ys)"

text \<open>
  \<open>s.split(sep)\<close> for a one-character separator, and \<open>re.split\<close> for a pattern that is
  a single character class: the string is cut at every character satisfying \<open>P\<close>, and
  empty pieces are kept.
\<close>

fun split_by :: "(char \<Rightarrow> bool) \<Rightarrow> string \<Rightarrow> string list" where
  "split_by P [] = [[]]"
| "split_by P (c # cs) =
     (if P c then [] # split_by P cs
      else (case split_by P cs of [] \<Rightarrow> [[c]] | w # ws \<Rightarrow> (c # w) # ws))"

definition split :: "char \<Rightarrow> string \<Rightarrow> string list" where
  "split sep s = split_by (\<lambda>c. c = sep) s"

text \<open>\<open>str(n)\<close> for an integer: decimal digits, with a minus sign when negative.\<close>

definition digit_char :: "nat \<Rightarrow> char" where
  "digit_char d = char_of (48 + d)"

function digits_of :: "nat \<Rightarrow> string" where
  "digits_of n = (if n < 10 then [digit_char n] else digits_of (n div 10) @ [digit_char (n mod 10)])"
  by pat_completeness auto
termination
  by (relation "measure id") auto

definition py_str :: "int \<Rightarrow> string" where
  "py_str i = (if i < 0 then CHR ''-'' # digits_of (nat (- i)) else digits_of (nat i))"

text \<open>
  \<open>int(s)\<close> in base 10: surrounding white space is dropped, one sign is allowed, and the
  digits may be grouped by single underscores. Anything else raises \<open>ValueError\<close>.
\<close>

definition digit_val :: "char \<Rightarrow> nat" where
  "digit_val c = of_char c - 48"

fun int_digits :: "nat \<Rightarrow> string \<Rightarrow> nat option" where
  "int_digits acc [] = Some acc"
| "int_digits acc (c # cs) =
     (if is_digit c then int_digits (10 * acc + digit_val c) cs
      else if c = CHR ''_'' \<and> cs \<noteq> [] \<and> is_digit (hd cs) then int_digits acc cs
      else None)"

definition int_body :: "string \<Rightarrow> nat option" where
  "int_body s = (case s of [] \<Rightarrow> None | d # _ \<Rightarrow> if is_digit d then int_digits 0 s else None)"

definition py_int :: "string \<Rightarrow> error + int" where
  "py_int s =
     (case strip s of
        [] \<Rightarrow> Inl (ValueError InvalidLiteral)
      | c # r \<Rightarrow>
          (if c = CHR ''-'' then
             (case int_body r of None \<Rightarrow> Inl (ValueError InvalidLiteral) | Some n \<Rightarrow> Inr (- int n))
           else if c = CHR ''+'' then
             (case int_body r of None \<Rightarrow> Inl (ValueError InvalidLiteral) | Some n \<Rightarrow> Inr (int n))
           else
             (case int_body (c # r) of None \<Rightarrow> Inl (ValueError InvalidLiteral) | Some n \<Rightarrow> Inr (int n))))"

text \<open>
  List indexing as the host language does it: a negative index counts from the end, and an
  index outside the list raises \<open>IndexError\<close>.
\<close>

definition norm_index :: "nat \<Rightarrow> int \<Rightarrow> nat option" where
  "norm_index n i =
     (let j = (if i < 0 then i + int n else i)
      in if 0 \<le> j \<and> j < int n then Some (nat j) else None)"

definition list_get :: "'a list \<Rightarrow> int \<Rightarrow> error + 'a" where
  "list_get xs i = (case norm_index (length xs) i of None \<Rightarrow> Inl IndexError | Some k \<Rightarrow> Inr (xs ! k))"

definition list_set :: "'a list \<Rightarrow> int \<Rightarrow> 'a \<Rightarrow> error + 'a list" where
  "list_set xs i v = (case norm_index (length xs) i of None \<Rightarrow> Inl IndexError | Some k \<Rightarrow> Inr (xs[k := v]))"


section \<open>Regular expressions\<close>

text \<open>
  The patterns of the source are written as syntax trees and run by a backtracking matcher
  with the semantics of the host language's \<open>re\<close> module: quantifiers are greedy,
  alternatives are tried in order, and a capture group remembers the text of its last
  successful pass. The matcher returns every way to match from a position, most
  preferred first; the first one is the match the \<open>re\<close> module reports.

  A state is the offset reached, the text still to read, and the captures so far (most
  recent first).
\<close>

datatype citem = CChar char | CRange char char

fun in_citem :: "citem \<Rightarrow> char \<Rightarrow> bool" where
  "in_citem (CChar a) c = (c = a)"
| "in_citem (CRange lo hi) c = (lo \<le> c \<and> c \<le> hi)"

definition in_class :: "citem list \<Rightarrow> char \<Rightarrow> bool" where
  "in_class cs c = list_ex (\<lambda>k. in_citem k c) cs"

datatype gkey = Name string | Index nat

datatype regex =
    RLit char
  | RCls "citem list"
  | RNot "citem list"
  | RSeq regex regex
  | RAlt regex regex
  | ROpt regex
  | RStar regex
  | RPlus regex
  | RGroup gkey regex
  | RBol
  | REol

type_synonym captures = "(gkey \<times> string) list"

type_synonym mstate = "nat \<times> string \<times> captures"

definition remaining :: "mstate \<Rightarrow> string" where
  "remaining st = fst (snd st)"

fun rweight :: "regex \<Rightarrow> nat" where
  "rweight (RSeq a b) = Suc (rweight a + rweight b)"
| "rweight (RAlt a b) = Suc (rweight a + rweight b)"
| "rweight (ROpt a) = Suc (rweight a)"
| "rweight (RStar a) = Suc (rweight a)"
| "rweight (RPlus a) = Suc (Suc (rweight a))"
| "rweight (RGroup k a) = Suc (rweight a)"
| "rweight _ = 0"

text \<open>
  \<open>$\<close> matches at the end of the text and before a line feed that ends the text;
  \<open>^\<close> matches at offset 0 (no pattern of the source sets the multi-line flag).
  A pass of \<open>*\<close> that consumes nothing ends the repetition.
\<close>

function (sequential) rmatch :: "regex \<Rightarrow> mstate \<Rightarrow> mstate list" where
  "rmatch (RLit a) (i, s, c) =
     (case s of [] \<Rightarrow> [] | x # xs \<Rightarrow> if x = a then [(Suc i, xs, c)] else [])"
| "rmatch (RCls cs) (i, s, c) =
     (case s of [] \<Rightarrow> [] | x # xs \<Rightarrow> if in_class cs x then [(Suc i, xs, c)] else [])"
| "rmatch (RNot cs) (i, s, c) =
     (case s of [] \<Rightarrow> [] | x # xs \<Rightarrow> if in_class cs x then [] else [(Suc i, xs, c)])"
| "rmatch (RSeq a b) st = concat (map (rmatch b) (rmatch a st))"
| "rmatch (RAlt a b) st = rmatch a st @ rmatch b st"
| "rmatch (ROpt a) st = rmatch a st @ [st]"
| "rmatch (RStar a) st =
     concat (map (\<lambda>st'. if length (remaining st') < length (remaining st)
                         then rmatch (RStar a) st' else [])
                 (rmatch a st)) @ [st]"
| "rmatch (RPlus a) st = concat (map (rmatch (RStar a)) (rmatch a st))"
| "rmatch (RGroup k a) (i, s, c) =
     map (\<lambda>(j, s', c'). (j, s', (k, take (j - i) s) # c')) (rmatch a (i, s, c))"
| "rmatch RBol (i, s, c) = (if i = 0 then [(i, s, c)] else [])"
| "rmatch REol (i, s, c) = (if s = [] \<or> s = [CHR 0x0A] then [(i, s, c)] else [])"
  by pat_completeness auto
termination
  by (relation "inv_image (less_than <*lex*> less_than) (\<lambda>(r, st). (rweight r, length (remaining st)))")
     (auto simp: remaining_def)

text \<open>\<open>re.match\<close> tries offset 0 only; \<open>re.search\<close> tries every offset, left to right.\<close>

definition first_match :: "regex \<Rightarrow> nat \<Rightarrow> string \<Rightarrow> captures option" where
  "first_match r k s = (case rmatch r (k, s, []) of [] \<Rightarrow> None | (j, s', c) # _ \<Rightarrow> Some c)"


fun search_from :: "regex \<Rightarrow> nat \<Rightarrow> string \<Rightarrow> captures option" where
  "search_from r k [] = first_match r k []"
| "search_from r k (x # xs) =
     (case first_match r k (x # xs) of Some c \<Rightarrow> Some c | None \<Rightarrow> search_from r (Suc k) xs)"

definition re_search :: "regex \<Rightarrow> string \<Rightarrow> captures option" where
  "re_search r s = search_from r 0 s"

text \<open>
  The groups a pattern declares; \<open>match.group(key)\<close> raises \<open>IndexError\<close> for a key
  the pattern does not declare and gives \<open>None\<close> for a group that took no part in the
  match, and \<open>match.groupdict().get(name)\<close> gives \<open>None\<close> in both cases.
\<close>

fun group_keys :: "regex \<Rightarrow> gkey list" where
  "group_keys (RSeq a b) = group_keys a @ group_keys b"
| "group_keys (RAlt a b) = group_keys a @ group_keys b"
| "group_keys (ROpt a) = group_keys a"
| "group_keys (RStar a) = group_keys a"
| "group_keys (RPlus a) = group_keys a"
| "group_keys (RGroup k a) = k # group_keys a"
| "group_keys _ = []"

definition match_group :: "regex \<Rightarrow> captures \<Rightarrow> gkey \<Rightarrow> error + string option" where
  "match_group r c k = (if k \<in> set (group_keys r) then Inr (map_of c k) else Inl IndexError)"

definition groupdict_get :: "regex \<Rightarrow> captures \<Rightarrow> string \<Rightarrow> string option" where
  "groupdict_get r c n = (if Name n \<in> set (group_keys r) then map_of c (Name n) else None)"

text \<open>Helpers to write the patterns down.\<close>

fun seqs :: "regex list \<Rightarrow> regex" where
  "seqs [r] = r"
| "seqs (r # rs) = RSeq r (seqs rs)"

definition lits :: "string \<Rightarrow> regex" where
  "lits s = seqs (map RLit s)"

definition digit :: regex where
  "digit = RCls [CRange CHR ''0'' CHR ''9'']"

definition alnum :: regex where
  "alnum = RCls [CRange CHR ''a'' CHR ''z'', CRange CHR ''A'' CHR ''Z'', CRange CHR ''0'' CHR ''9'']"

definition idchar :: regex where
  "idchar = RCls [CRange CHR ''a'' CHR ''z'', CRange CHR ''A'' CHR ''Z'', CRange CHR ''0'' CHR ''9'',
                  CChar CHR ''-'']"



section \<open>The patterns of the source\<close>







text \<open>
  \<open>_VALID_PEP440\<close>:
  \<^verbatim>\<open>^(\d+!)?\d+(\.\d+)*((a|b|rc)\d+)?(\.post\d+)?(\.dev\d+)?\<close>
  \<^verbatim>\<open>(\+([a-zA-Z0-9]|[a-zA-Z0-9]{2}|[a-zA-Z0-9][a-zA-Z0-9.]+[a-zA-Z0-9]))?$\<close>
\<close>

definition VALID_PEP440 :: regex where
  "VALID_PEP440 = seqs
     [RBol,
      ROpt (RGroup (Index 1) (RSeq (RPlus digit) (RLit CHR ''!''))),
      RPlus digit,
      RStar (RGroup (Index 2) (RSeq (RLit CHR ''.'') (RPlus digit))),
      ROpt (RGroup (Index 3)
        (RSeq (RGroup (Index 4) (RAlt (RLit CHR ''a'') (RAlt (RLit CHR ''b'') (lits ''rc''))))
              (RPlus digit))),
      ROpt (RGroup (Index 5) (RSeq (lits ''.post'') (RPlus digit))),
      ROpt (RGroup (Index 6) (RSeq (lits ''.dev'') (RPlus digit))),
      ROpt (RGroup (Index 7)
        (RSeq (RLit CHR ''+'')
           (RGroup (Index 8)
              (RAlt alnum
                 (RAlt (RSeq alnum alnum)
                    (seqs [alnum,
                           RPlus (RCls [CRange CHR ''a'' CHR ''z'', CRange CHR ''A'' CHR ''Z'',
                                        CRange CHR ''0'' CHR ''9'', CChar CHR ''.'']),
                           alnum])))))),
      REol]"

text \<open>
  \<open>_VALID_SEMVER\<close>:
  \<^verbatim>\<open>^\d+\.\d+\.\d+(\-[a-zA-Z0-9\-]+(\.[a-zA-Z0-9\-]+)*)?(\+[a-zA-Z0-9\-]+(\.[a-zA-Z0-9\-]+)*)?$\<close>
\<close>

definition VALID_SEMVER :: regex where
  "VALID_SEMVER = seqs
     [RBol, RPlus digit, RLit CHR ''.'', RPlus digit, RLit CHR ''.'', RPlus digit,
      ROpt (RGroup (Index 1)
        (seqs [RLit CHR ''-'', RPlus idchar,
               RStar (RGroup (Index 2) (RSeq (RLit CHR ''.'') (RPlus idchar)))])),
      ROpt (RGroup (Index 3)
        (seqs [RLit CHR ''+'', RPlus idchar,
               RStar (RGroup (Index 4) (RSeq (RLit CHR ''.'') (RPlus idchar)))])),
      REol]"

text \<open>\<open>_VALID_PVP\<close>: \<^verbatim>\<open>^\d+(\.\d+)*(-[a-zA-Z0-9]+)*$\<close>\<close>

definition VALID_PVP :: regex where
  "VALID_PVP = seqs
     [RBol, RPlus digit,
      RStar (RGroup (Index 1) (RSeq (RLit CHR ''.'') (RPlus digit))),
      RStar (RGroup (Index 2) (RSeq (RLit CHR ''-'') (RPlus alnum))),
      REol]"

text \<open>The leading-zero test of \<open>check_version\<close>: \<^verbatim>\<open>^0[0-9]+$\<close>\<close>

definition LEADING_ZERO :: regex where
  "LEADING_ZERO = seqs [RBol, RLit CHR ''0'', RPlus (RCls [CRange CHR ''0'' CHR ''9'']), REol]"



section \<open>check_version\<close>

definition style_pattern :: "style \<Rightarrow> regex" where
  "style_pattern st = (case st of Pep440 \<Rightarrow> VALID_PEP440 | SemVer \<Rightarrow> VALID_SEMVER | Pvp \<Rightarrow> VALID_PVP)"

text \<open>
  \<open>version.split("+", 1)[0]\<close> is the text before the first \<open>+\<close>; \<open>re.split(r"[.-]", _)\<close>
  cuts it at every dot and hyphen.
\<close>

definition check_version :: "string \<Rightarrow> style \<Rightarrow> error + unit" where
  "check_version version st =
     (if re_search (style_pattern st) version = None then Inl (ValueError (NotConforming st))
      else if st = SemVer then
        (let parts = split_by (\<lambda>c. c = CHR ''.'' \<or> c = CHR ''-'')
                       (takeWhile (\<lambda>c. c \<noteq> CHR ''+'') version)
         in if list_ex (\<lambda>x. re_search LEADING_ZERO x \<noteq> None) parts
            then Inl (ValueError (NotConforming st))
            else Inr ())
      else Inr ())"

section \<open>The serializers\<close>

definition alternative_stages :: "(string \<times> string) list" where
  "alternative_stages =
     [(''alpha'', ''a''), (''beta'', ''b''), (''c'', ''rc''), (''pre'', ''rc''), (''preview'', ''rc'')]"

definition pep440_stage :: "string \<Rightarrow> string" where
  "pep440_stage stage =
     (case map_of alternative_stages (lower stage) of Some a \<Rightarrow> a | None \<Rightarrow> lower stage)"

definition render_pep440 ::
  "string \<Rightarrow> string option \<Rightarrow> int option \<Rightarrow> int option \<Rightarrow> int option \<Rightarrow> int option
     \<Rightarrow> string list option \<Rightarrow> string" where
  "render_pep440 base stage revision post dev epoch metadata =
     (case epoch of None \<Rightarrow> [] | Some e \<Rightarrow> py_str e @ ''!'')
     @ base
     @ (case stage of None \<Rightarrow> []
        | Some sg \<Rightarrow> pep440_stage sg @ (case revision of None \<Rightarrow> py_str 0 | Some r \<Rightarrow> py_str r))
     @ (case post of None \<Rightarrow> [] | Some p \<Rightarrow> ''.post'' @ py_str p)
     @ (case dev of None \<Rightarrow> [] | Some d \<Rightarrow> ''.dev'' @ py_str d)
     @ (case metadata of None \<Rightarrow> []
        | Some md \<Rightarrow> if length md > 0 then ''+'' @ join ''.'' md else [])"

definition serialize_pep440 ::
  "string \<Rightarrow> string option \<Rightarrow> int option \<Rightarrow> int option \<Rightarrow> int option \<Rightarrow> int option
     \<Rightarrow> string list option \<Rightarrow> error + string" where
  "serialize_pep440 base stage revision post dev epoch metadata =
     (let serialized = render_pep440 base stage revision post dev epoch metadata
      in case check_version serialized Pep440 of Inl e \<Rightarrow> Inl e | Inr _ \<Rightarrow> Inr serialized)"

definition render_semver :: "string \<Rightarrow> string list option \<Rightarrow> string list option \<Rightarrow> string" where
  "render_semver base pre metadata =
     base
     @ (case pre of None \<Rightarrow> [] | Some ps \<Rightarrow> if length ps > 0 then ''-'' @ join ''.'' ps else [])
     @ (case metadata of None \<Rightarrow> []
        | Some md \<Rightarrow> if length md > 0 then ''+'' @ join ''.'' md else [])"

definition serialize_semver :: "string \<Rightarrow> string list option \<Rightarrow> string list option \<Rightarrow> error + string" where
  "serialize_semver base pre metadata =
     (let serialized = render_semver base pre metadata
      in case check_version serialized SemVer of Inl e \<Rightarrow> Inl e | Inr _ \<Rightarrow> Inr serialized)"

definition render_pvp :: "string \<Rightarrow> string list option \<Rightarrow> string" where
  "render_pvp base metadata =
     base
     @ (case metadata of None \<Rightarrow> []
        | Some md \<Rightarrow> if length md > 0 then ''-'' @ join ''-'' md else [])"

definition serialize_pvp :: "string \<Rightarrow> string list option \<Rightarrow> error + string" where
  "serialize_pvp base metadata =
     (let serialized = render_pvp base metadata
      in case check_version serialized Pvp of Inl e \<Rightarrow> Inl e | Inr _ \<Rightarrow> Inr serialized)"

section \<open>bump_version\<close>

text \<open>
  The list comprehension converts the segments left to right and stops at the first that
  \<open>int\<close> refuses.
\<close>

fun ints_of :: "string list \<Rightarrow> error + int list" where
  "ints_of [] = Inr []"
| "ints_of (x # xs) =
     (case py_int x of Inl e \<Rightarrow> Inl e
      | Inr n \<Rightarrow> (case ints_of xs of Inl e \<Rightarrow> Inl e | Inr ns \<Rightarrow> Inr (n # ns)))"

text \<open>The \<open>while i < limit\<close> loop, with \<open>bases[i] = 0\<close> as the indexed store it is.\<close>

function reset_loop :: "int list \<Rightarrow> int \<Rightarrow> int \<Rightarrow> error + int list" where
  "reset_loop bases i limit =
     (if i < limit then
        (case list_set bases i 0 of Inl e \<Rightarrow> Inl e | Inr bases' \<Rightarrow> reset_loop bases' (i + 1) limit)
      else Inr bases)"
  by pat_completeness auto
termination
  by (relation "measure (\<lambda>(bases, i, limit). nat (limit - i))") auto

definition bump_version :: "string \<Rightarrow> int \<Rightarrow> error + string" where
  "bump_version base index =
     (case ints_of (split CHR ''.'' base) of Inl e \<Rightarrow> Inl e
      | Inr bases \<Rightarrow>
          (case list_get bases index of Inl e \<Rightarrow> Inl e
           | Inr b \<Rightarrow>
               (case list_set bases index (b + 1) of Inl e \<Rightarrow> Inl e
                | Inr bases1 \<Rightarrow>
                    (let limit = (if index < 0 then 0 else int (length bases1));
                         i = index + 1
                     in case reset_loop bases1 i limit of Inl e \<Rightarrow> Inl e
                        | Inr bases2 \<Rightarrow> Inr (join ''.'' (map py_str bases2))))))"

section \<open>Timestamps\<close>

text \<open>
  A timestamp is a calendar date and time of day, already in UTC. The constructor
  \<open>dt.datetime(year, month, day, hour, minute, second)\<close> checks its fields in this order and
  raises \<open>ValueError\<close> at the first that is out of range; the smallest year is 1.
\<close>

record pydatetime =
  dt_year :: int
  dt_month :: int
  dt_day :: int
  dt_hour :: int
  dt_minute :: int
  dt_second :: int

definition is_leap :: "int \<Rightarrow> bool" where
  "is_leap y = (y mod 4 = 0 \<and> (y mod 100 \<noteq> 0 \<or> y mod 400 = 0))"

definition days_in_month :: "int \<Rightarrow> int \<Rightarrow> int" where
  "days_in_month y mo =
     (if mo = 2 then (if is_leap y then 29 else 28)
      else if mo \<in> {4, 6, 9, 11} then 30 else 31)"

definition datetime :: "int \<Rightarrow> int \<Rightarrow> int \<Rightarrow> int \<Rightarrow> int \<Rightarrow> int \<Rightarrow> error + pydatetime" where
  "datetime y mo d h mi sec =
     (if \<not> (1 \<le> y \<and> y \<le> 9999) then Inl (ValueError YearOutOfRange)
      else if \<not> (1 \<le> mo \<and> mo \<le> 12) then Inl (ValueError FieldOutOfRange)
      else if \<not> (1 \<le> d \<and> d \<le> days_in_month y mo) then Inl (ValueError FieldOutOfRange)
      else if \<not> (0 \<le> h \<and> h \<le> 23) then Inl (ValueError FieldOutOfRange)
      else if \<not> (0 \<le> mi \<and> mi \<le> 59) then Inl (ValueError FieldOutOfRange)
      else if \<not> (0 \<le> sec \<and> sec \<le> 59) then Inl (ValueError FieldOutOfRange)
      else Inr \<lparr>dt_year = y, dt_month = mo, dt_day = d, dt_hour = h, dt_minute = mi, dt_second = sec\<rparr>)"

definition datetime_less :: "pydatetime \<Rightarrow> pydatetime \<Rightarrow> bool" where
  "datetime_less a b =
     ([dt_year a, dt_month a, dt_day a, dt_hour a, dt_minute a, dt_second a]
        < [dt_year b, dt_month b, dt_day b, dt_hour b, dt_minute b, dt_second b])"

section \<open>The pattern matcher\<close>

datatype matched_version_pattern =
  MatchedVersionPattern
    (matched_tag: string)
    (matched_base: string)
    (stage_revision: "(string \<times> int option) option")
    (newer_tags: "string list")
    (matched_tagged_metadata: "string option")
    (matched_epoch: "int option")

text \<open>
  The \<open>for\<close> loop of \<open>_match_version_pattern\<close> over the candidates still to test, with the
  unmatched tags collected so far. It ends with the candidate that matched, its captures and
  its base, or with nothing when the candidates are exhausted; a candidate that matches a
  pattern without a group called \<open>base\<close> raises at once.
\<close>

fun scan_sources ::
  "regex \<Rightarrow> string list \<Rightarrow> string list \<Rightarrow> error + (string \<times> captures \<times> string \<times> string list) option" where
  "scan_sources pattern [] newer_unmatched_tags = Inr None"
| "scan_sources pattern (source # rest) newer_unmatched_tags =
     (case re_search pattern source of
        None \<Rightarrow> scan_sources pattern rest (newer_unmatched_tags @ [source])
      | Some pattern_match \<Rightarrow>
          (case match_group pattern pattern_match (Name ''base'') of
             Inl e \<Rightarrow> Inl (ValueError MissingBaseGroup)
           | Inr None \<Rightarrow> scan_sources pattern rest newer_unmatched_tags
           | Inr (Some b) \<Rightarrow> Inr (Some (source, pattern_match, b, newer_unmatched_tags))))"

definition match_version_pattern ::
  "regex \<Rightarrow> string list \<Rightarrow> bool \<Rightarrow> error + matched_version_pattern" where
  "match_version_pattern pattern sources latest_source =
     (case scan_sources pattern (if latest_source then take 1 sources else sources) [] of
        Inl e \<Rightarrow> Inl e
      | Inr None \<Rightarrow>
          (if latest_source then
             (case list_get sources 0 of Inl e \<Rightarrow> Inl e | Inr _ \<Rightarrow> Inl (ValueError NoMatchLatest))
           else Inl (ValueError NoMatchAny))
      | Inr (Some (source, pattern_match, b, newer_unmatched_tags)) \<Rightarrow>
          (let stg = groupdict_get pattern pattern_match ''stage'';
               rev0 = groupdict_get pattern pattern_match ''revision'';
               tm = groupdict_get pattern pattern_match ''tagged_metadata'';
               ep0 = groupdict_get pattern pattern_match ''epoch''
           in case (case stg of None \<Rightarrow> Inr None
                    | Some sg \<Rightarrow>
                        (case rev0 of None \<Rightarrow> Inr (Some (sg, None))
                         | Some r \<Rightarrow> (case py_int r of Inl e \<Rightarrow> Inl (ValueError BadRevision)
                                       | Inr n \<Rightarrow> Inr (Some (sg, Some n))))) of
                Inl e \<Rightarrow> Inl e
              | Inr sr \<Rightarrow>
                  (case (case ep0 of None \<Rightarrow> Inr None
                         | Some x \<Rightarrow> (case py_int x of Inl e \<Rightarrow> Inl (ValueError BadEpoch)
                                       | Inr n \<Rightarrow> Inr (Some n))) of
                     Inl e \<Rightarrow> Inl e
                   | Inr ep \<Rightarrow> Inr (MatchedVersionPattern source b sr newer_unmatched_tags tm ep))))"

section \<open>The Version entity\<close>

record version =
  base :: string
  stage :: "string option"
  revision :: "int option"
  distance :: int
  commit :: "string option"
  dirty :: "bool option"
  tagged_metadata :: "string option"
  epoch :: "int option"
  branch :: "string option"
  timestamp :: "pydatetime option"

text \<open>
  The constructor: the \<open>stage\<close> argument is a pair of the label and its revision. A
  timestamp is stored as given, being in UTC already. The two private attributes that
  remember the matched tag and the newer unmatched tags are set by the VCS adapters only and
  take no part in the operations modelled here.
\<close>

definition Version ::
  "string \<Rightarrow> (string \<times> int option) option \<Rightarrow> int \<Rightarrow> string option \<Rightarrow> bool option \<Rightarrow> string option
     \<Rightarrow> int option \<Rightarrow> string option \<Rightarrow> pydatetime option \<Rightarrow> version" where
  "Version b sr dist cm dty tm ep br ts =
     \<lparr>base = b,
      stage = (case sr of None \<Rightarrow> None | Some (sg, r) \<Rightarrow> Some sg),
      revision = (case sr of None \<Rightarrow> None | Some (sg, r) \<Rightarrow> r),
      distance = dist, commit = cm, dirty = dty, tagged_metadata = tm, epoch = ep,
      branch = br, timestamp = ts\<rparr>"

text \<open>\<open>Version(base)\<close>, every keyword argument at its default.\<close>

definition Version_of :: "string \<Rightarrow> version" where
  "Version_of b = Version b None 0 None None None None None None"

definition blank :: "'a option \<Rightarrow> 'a \<Rightarrow> 'a" where
  "blank v d = (case v of None \<Rightarrow> d | Some x \<Rightarrow> x)"

subsection \<open>Comparison\<close>

text \<open>
  \<open>__lt__\<close> is a chain of \<open>and\<close>, evaluated left to right and stopping at the first false
  operand. Its first operand compares the bases with the \<open>packaging\<close> library, which is not
  part of the program: \<open>pv_lt a b\<close> stands for \<open>pv.Version(a) < pv.Version(b)\<close>, and may
  raise. The arguments of \<open>_blank\<close> are evaluated before the call, so the last operand
  builds \<open>dt.datetime(0, 0, 0, 0, 0, 0)\<close> whenever it is reached.
\<close>

definition version_lt :: "(string \<Rightarrow> string \<Rightarrow> error + bool) \<Rightarrow> version \<Rightarrow> version \<Rightarrow> error + bool" where
  "version_lt pv_lt self other =
     (case pv_lt (base self) (base other) of
        Inl e \<Rightarrow> Inl e
      | Inr bl \<Rightarrow>
          if \<not> bl then Inr False
          else if \<not> (blank (stage self) [] < blank (stage other) []) then Inr False
          else if \<not> (blank (revision self) 0 < blank (revision other) 0) then Inr False
          else if \<not> (distance self < distance other) then Inr False
          else if \<not> (blank (commit self) [] < blank (commit other) []) then Inr False
          else if \<not> ((dirty self = Some True) < (dirty other = Some True)) then Inr False
          else if \<not> (blank (tagged_metadata self) [] < blank (tagged_metadata other) []) then Inr False
          else if \<not> (blank (epoch self) 0 < blank (epoch other) 0) then Inr False
          else if \<not> (blank (branch self) [] < blank (branch other) []) then Inr False
          else
            (case datetime 0 0 0 0 0 0 of
               Inl e \<Rightarrow> Inl e
             | Inr d1 \<Rightarrow>
                 (case datetime 0 0 0 0 0 0 of
                    Inl e \<Rightarrow> Inl e
                  | Inr d2 \<Rightarrow> Inr (datetime_less (blank (timestamp self) d1) (blank (timestamp other) d2)))))"

subsection \<open>bump\<close>

definition bump :: "version \<Rightarrow> int \<Rightarrow> error + version" where
  "bump self index =
     (case stage self of
        None \<Rightarrow> (case bump_version (base self) index of Inl e \<Rightarrow> Inl e
                 | Inr b \<Rightarrow> Inr (self\<lparr>base := b\<rparr>))
      | Some _ \<Rightarrow>
          (case revision self of
             None \<Rightarrow> Inr (self\<lparr>revision := Some 2\<rparr>)
           | Some r \<Rightarrow> Inr (self\<lparr>revision := Some (r + 1)\<rparr>)))"

subsection \<open>parse\<close>











subsection \<open>serialize\<close>

text \<open>
  The PEP 440 branch of \<open>serialize\<close>: the stages \<open>post\<close> and \<open>dev\<close> become the post and
  dev numbers, and a positive distance is put into them.
\<close>

definition pep440_stage_post_dev ::
  "string option \<Rightarrow> int option \<Rightarrow> string option \<times> int option \<times> int option" where
  "pep440_stage_post_dev stg rev0 =
     (if stg = Some ''post'' then (None, rev0, None)
      else if stg = Some ''dev'' then (None, None, rev0)
      else (stg, None, None))"

definition pep440_distance :: "int \<Rightarrow> bool \<Rightarrow> int option \<Rightarrow> int option \<Rightarrow> int option \<times> int option" where
  "pep440_distance dist bump_flag post dev =
     (if dist > 0 then
        (if bump_flag then
           (case dev of None \<Rightarrow> (post, Some dist) | Some d \<Rightarrow> (post, Some (d + dist)))
         else
           (if post = None \<and> dev = None then (Some dist, Some 0)
            else (case dev of None \<Rightarrow> (post, Some dist) | Some d \<Rightarrow> (post, Some (d + dist)))))
      else (post, dev))"

definition meta_parts_of :: "version \<Rightarrow> bool option \<Rightarrow> bool \<Rightarrow> bool \<Rightarrow> string list" where
  "meta_parts_of self metadata dirty_flag tagged_metadata_flag =
     (if metadata \<noteq> Some False then
        (case tagged_metadata self of
           None \<Rightarrow> []
         | Some tm \<Rightarrow> if tagged_metadata_flag \<and> tm \<noteq> [] then [tm] else [])
        @ (case commit self of
             None \<Rightarrow> []
           | Some cm \<Rightarrow> if metadata = Some True \<or> distance self > 0 then [cm] else [])
        @ (if dirty_flag \<and> dirty self = Some True then [''dirty''] else [])
      else [])"

definition pre_parts_of :: "version \<Rightarrow> int option \<Rightarrow> bool \<Rightarrow> string list" where
  "pre_parts_of self rev0 bump_flag =
     (case stage self of
        None \<Rightarrow> []
      | Some sg \<Rightarrow> sg # (case rev0 of None \<Rightarrow> [] | Some r \<Rightarrow> [py_str r]))
     @ (if distance self > 0 then [if bump_flag then ''pre'' else ''post'', py_str (distance self)]
        else [])"

text \<open>
  \<open>self.serialize(metadata, dirty, format, style, bump, tagged_metadata)\<close>. A custom format
  is a callback on the possibly bumped version; a template string is the callback that
  fills the template from the fields of that version.
\<close>

definition serialize ::
  "version \<Rightarrow> bool option \<Rightarrow> bool \<Rightarrow> (version \<Rightarrow> error + string) option \<Rightarrow> style option \<Rightarrow> bool \<Rightarrow> bool
     \<Rightarrow> error + string" where
  "serialize self metadata dirty_flag format style_arg bump_flag tagged_metadata_flag =
     (case (if bump_flag \<and> distance self > 0 then
              (case bump self (- 1) of Inl e \<Rightarrow> Inl e
               | Inr bumped \<Rightarrow> Inr (base bumped, revision bumped))
            else Inr (base self, revision self)) of
        Inl e \<Rightarrow> Inl e
      | Inr (b, rev0) \<Rightarrow>
          (case format of
             Some f \<Rightarrow>
               (case f (self\<lparr>base := b, revision := rev0\<rparr>) of
                  Inl e \<Rightarrow> Inl e
                | Inr out \<Rightarrow>
                    (case style_arg of
                       None \<Rightarrow> Inr out
                     | Some st \<Rightarrow> (case check_version out st of Inl e \<Rightarrow> Inl e | Inr _ \<Rightarrow> Inr out)))
           | None \<Rightarrow>
               (let st = (case style_arg of None \<Rightarrow> Pep440 | Some x \<Rightarrow> x);
                    meta_parts = meta_parts_of self metadata dirty_flag tagged_metadata_flag;
                    pre_parts = pre_parts_of self rev0 bump_flag
                in case (case st of
                           Pep440 \<Rightarrow>
                             (case pep440_stage_post_dev (stage self) rev0 of
                                (stg, post, dev) \<Rightarrow>
                                  (case pep440_distance (distance self) bump_flag post dev of
                                     (post', dev') \<Rightarrow>
                                       serialize_pep440 b stg rev0 post' dev' (epoch self) (Some meta_parts)))
                         | SemVer \<Rightarrow> serialize_semver b (Some pre_parts) (Some meta_parts)
                         | Pvp \<Rightarrow> serialize_pvp b (Some (pre_parts @ meta_parts))) of
                     Inl e \<Rightarrow> Inl e
                   | Inr out \<Rightarrow> (case check_version out st of Inl e \<Rightarrow> Inl e | Inr _ \<Rightarrow> Inr out))))"

section \<open>Notions used to state the properties\<close>

text \<open>
  Everything above is translated from the source. What follows is used to state and prove
  the properties only. A definition whose name starts with \<open>spec_\<close> says what an
  operation is specified to compute, in terms of the data alone; the theorems compare it
  with the operation translated from the source.
\<close>

text \<open>
  Every operand of the \<open>and\<close> chain of \<open>__lt__\<close> that stands before the timestamp
  comparison holds.
\<close>

definition fields_before_timestamp_less ::
  "(string \<Rightarrow> string \<Rightarrow> error + bool) \<Rightarrow> version \<Rightarrow> version \<Rightarrow> bool" where
  "fields_before_timestamp_less pv_lt x y =
     (pv_lt (base x) (base y) = Inr True
      \<and> blank (stage x) [] < blank (stage y) []
      \<and> blank (revision x) 0 < blank (revision y) 0
      \<and> distance x < distance y
      \<and> blank (commit x) [] < blank (commit y) []
      \<and> (dirty x = Some True) < (dirty y = Some True)
      \<and> blank (tagged_metadata x) [] < blank (tagged_metadata y) []
      \<and> blank (epoch x) 0 < blank (epoch y) 0
      \<and> blank (branch x) [] < blank (branch y) [])"

text \<open>A stand-in for the base comparison of the \<open>packaging\<close> library, used in examples only.\<close>

definition str_lt :: "string \<Rightarrow> string \<Rightarrow> error + bool" where
  "str_lt a b = Inr (a < b)"

section \<open>Notions used to reason about the matcher\<close>

text \<open>A pattern that reads exactly one character, accepted by \<open>P\<close>.\<close>

definition one_char :: "regex \<Rightarrow> (char \<Rightarrow> bool) \<Rightarrow> bool" where
  "one_char a P = (\<forall>i s c. rmatch a (i, s, c) =
      (case s of [] \<Rightarrow> [] | x # xs \<Rightarrow> if P x then [(Suc i, xs, c)] else []))"

section \<open>The metadata scan, stated on the parts themselves\<close>












section \<open>Notions used to state the remaining properties\<close>

text \<open>The candidates the matcher tests: the first one only under \<open>latest_source\<close>.\<close>

definition tested_sources :: "string list \<Rightarrow> bool \<Rightarrow> string list" where
  "tested_sources sources latest_source = (if latest_source then take 1 sources else sources)"


text \<open>
  A segment that the leading-zero pattern accepts: a zero, then one or more digits, up to
  the end of the segment (or up to a line feed that ends it, as \<open>$\<close> allows).
\<close>

definition spec_leading_zero_segment :: "string \<Rightarrow> bool" where
  "spec_leading_zero_segment x =
     (case x of
        [] \<Rightarrow> False
      | c # r \<Rightarrow> c = CHR ''0'' \<and> takeWhile is_digit r \<noteq> []
                 \<and> (dropWhile is_digit r = [] \<or> dropWhile is_digit r = [CHR 0x0A]))"



section \<open>Notions used to state the round trip\<close>


text \<open>The text of the dotted groups after the first segment of a base.\<close>

fun dots :: "string list \<Rightarrow> string" where
  "dots [] = []"
| "dots (s # ss) = CHR ''.'' # s @ dots ss"


definition is_letter :: "char \<Rightarrow> bool" where
  "is_letter c = ((CHR ''a'' \<le> c \<and> c \<le> CHR ''z'') \<or> (CHR ''A'' \<le> c \<and> c \<le> CHR ''Z''))"




text \<open>The captures, looked up by group name.\<close>

definition names_view :: "captures \<Rightarrow> string \<Rightarrow> string option" where
  "names_view c n = map_of c (Name n)"













section \<open>Facts about the matcher\<close>

lemma rev_upt_Suc_Suc: "rev [0..<Suc (Suc n)] = map Suc (rev [0..<Suc n]) @ [0]"
proof -
  have "[0..<Suc (Suc n)] = 0 # [Suc 0..<Suc (Suc n)]"
    by (rule upt_conv_Cons) simp
  also have "[Suc 0..<Suc (Suc n)] = map Suc [0..<Suc n]"
    by (rule map_Suc_upt [symmetric])
  finally show ?thesis by (simp only: rev.simps rev_map)
qed

lemma one_char_cls: "one_char (RCls cs) (in_class cs)"
  by (simp add: one_char_def)

lemma one_char_not: "one_char (RNot cs) (\<lambda>x. \<not> in_class cs x)"
  by (auto simp: one_char_def split: list.splits)

lemma one_char_lit: "one_char (RLit a) (\<lambda>x. x = a)"
  by (simp add: one_char_def)

lemma rmatch_star_one:
  assumes "one_char a P"
  shows "rmatch (RStar a) (i, s, c) =
         map (\<lambda>k. (i + k, drop k s, c)) (rev [0..<Suc (length (takeWhile P s))])"
proof (induction s arbitrary: i)
  case Nil
  from assms show ?case by (simp add: one_char_def)
next
  case (Cons x xs)
  show ?case
  proof (cases "P x")
    case False
    with assms show ?thesis by (simp add: one_char_def)
  next
    case True
    have "rmatch (RStar a) (i, x # xs, c) = rmatch (RStar a) (Suc i, xs, c) @ [(i, x # xs, c)]"
      using assms True by (simp add: one_char_def remaining_def)
    also have "\<dots> = map (\<lambda>k. (Suc i + k, drop k xs, c)) (rev [0..<Suc (length (takeWhile P xs))])
                      @ [(i, x # xs, c)]"
      by (simp only: Cons.IH)
    also have "\<dots> = map (\<lambda>k. (i + k, drop k (x # xs), c)) (rev [0..<Suc (length (takeWhile P (x # xs)))])"
      using True by (simp add: rev_upt_Suc_Suc del: upt_Suc rev.simps)
    finally show ?thesis .
  qed
qed

lemma rmatch_plus_one:
  assumes "one_char a P"
  shows "rmatch (RPlus a) (i, s, c) =
         map (\<lambda>k. (i + k, drop k s, c)) (rev [1..<Suc (length (takeWhile P s))])"
proof (cases s)
  case Nil
  with assms show ?thesis by (simp add: one_char_def)
next
  case (Cons x xs)
  show ?thesis
  proof (cases "P x")
    case False
    with assms Cons show ?thesis by (simp add: one_char_def)
  next
    case True
    have "[Suc 0..<Suc (Suc (length (takeWhile P xs)))] = map Suc [0..<Suc (length (takeWhile P xs))]"
      by (rule map_Suc_upt [symmetric])
    then have r: "rev [Suc 0..<Suc (Suc (length (takeWhile P xs)))] = map Suc (rev [0..<Suc (length (takeWhile P xs))])"
      by (simp only: rev_map)
    have "rmatch (RPlus a) (i, s, c) = rmatch (RStar a) (Suc i, xs, c)"
      using assms True Cons by (simp add: one_char_def)
    also have "\<dots> = map (\<lambda>k. (Suc i + k, drop k xs, c)) (rev [0..<Suc (length (takeWhile P xs))])"
      by (rule rmatch_star_one [OF assms])
    also have "\<dots> = map (\<lambda>k. (i + k, drop k s, c)) (rev [1..<Suc (length (takeWhile P s))])"
      using True Cons by (simp add: r comp_def del: upt_Suc rev.simps)
    finally show ?thesis .
  qed
qed

declare rmatch.simps [simp del]

lemmas rmatch_struct = rmatch.simps(1-6) rmatch.simps(9-11)


lemma rmatch_plus_first:
  assumes "one_char a P" and "takeWhile P s \<noteq> []"
  shows "\<exists>zs. rmatch (RPlus a) (i, s, c) = (i + length (takeWhile P s), dropWhile P s, c) # zs"
proof -
  obtain n where n: "length (takeWhile P s) = Suc n"
    using assms(2) by (cases "takeWhile P s") auto
  have "rev [1..<Suc (Suc n)] = Suc n # rev [1..<Suc n]" by simp
  moreover have "drop (Suc n) s = dropWhile P s"
    using n by (metis dropWhile_eq_drop)
  ultimately show ?thesis
    by (simp add: rmatch_plus_one [OF assms(1)] n del: upt_Suc)
qed

lemma rmatch_plus_all:
  assumes "one_char a P" and "(j, s', c') \<in> set (rmatch (RPlus a) (i, s, c))"
  shows "\<exists>k. 1 \<le> k \<and> k \<le> length (takeWhile P s) \<and> j = i + k \<and> s' = drop k s \<and> c' = c"
  using assms(2) by (auto simp: rmatch_plus_one [OF assms(1)] simp del: upt_Suc)




lemma in_class_digit: "in_class [CRange CHR ''0'' CHR ''9''] = is_digit"
  by (rule ext) (simp add: in_class_def is_digit_def)





section \<open>Properties of the parser\<close>
























section \<open>Properties of the comparator\<close>

lemma datetime_year_zero: "datetime 0 0 0 0 0 0 = Inl (ValueError YearOutOfRange)"
  by (simp add: datetime_def)

text \<open>
  Claim C9. For all versions \<open>x\<close> and \<open>y\<close>, whatever the base comparison does, \<open>x < y\<close>
  never returns \<open>True\<close>: when every operand before the timestamp comparison holds, building
  \<open>dt.datetime(0, 0, 0, 0, 0, 0)\<close> raises \<open>ValueError\<close> (year 0 is out of range);
  otherwise the chain stops at its first false operand and returns \<open>False\<close> (or the base
  comparison of the \<open>packaging\<close> library itself raised, and its exception is the outcome).
\<close>

theorem lt_never_true:
  "version_lt pv_lt x y \<noteq> Inr True
   \<and> (fields_before_timestamp_less pv_lt x y \<longrightarrow> version_lt pv_lt x y = Inl (ValueError YearOutOfRange))
   \<and> (\<not> fields_before_timestamp_less pv_lt x y \<longrightarrow>
        (case pv_lt (base x) (base y) of Inl e \<Rightarrow> version_lt pv_lt x y = Inl e
         | Inr bl \<Rightarrow> version_lt pv_lt x y = Inr False))"
  by (auto simp: version_lt_def fields_before_timestamp_less_def datetime_year_zero split: sum.splits)

theorem lt_never_true_witness:
  "fields_before_timestamp_less str_lt
      (Version ''1.0.0'' (Some (''a'', Some 1)) 1 (Some ''abc'') (Some False) (Some ''linux'') (Some 0) (Some ''dev'') None)
      (Version ''2.0.0'' (Some (''b'', Some 2)) 2 (Some ''abd'') (Some True) (Some ''macos'') (Some 1) (Some ''main'') None)
   \<and> version_lt str_lt
      (Version ''1.0.0'' (Some (''a'', Some 1)) 1 (Some ''abc'') (Some False) (Some ''linux'') (Some 0) (Some ''dev'') None)
      (Version ''2.0.0'' (Some (''b'', Some 2)) 2 (Some ''abd'') (Some True) (Some ''macos'') (Some 1) (Some ''main'') None)
     = Inl (ValueError YearOutOfRange)
   \<and> \<not> fields_before_timestamp_less str_lt (Version_of ''1.0.0'') (Version_of ''2.0.0'')
   \<and> version_lt str_lt (Version_of ''1.0.0'') (Version_of ''2.0.0'') = Inr False"
proof -
  let ?x = "Version ''1.0.0'' (Some (''a'', Some 1)) 1 (Some ''abc'') (Some False) (Some ''linux'') (Some 0) (Some ''dev'') None"
  let ?y = "Version ''2.0.0'' (Some (''b'', Some 2)) 2 (Some ''abd'') (Some True) (Some ''macos'') (Some 1) (Some ''main'') None"
  have h1: "fields_before_timestamp_less str_lt ?x ?y"
    by (simp add: fields_before_timestamp_less_def str_lt_def Version_def blank_def)
  have h2: "\<not> fields_before_timestamp_less str_lt (Version_of ''1.0.0'') (Version_of ''2.0.0'')"
    by (simp add: fields_before_timestamp_less_def str_lt_def Version_def Version_of_def blank_def)
  have h3: "str_lt (base (Version_of ''1.0.0'')) (base (Version_of ''2.0.0'')) = Inr True"
    by (simp add: str_lt_def Version_def Version_of_def)
  from lt_never_true [of str_lt ?x ?y] h1
  have a: "version_lt str_lt ?x ?y = Inl (ValueError YearOutOfRange)" by blast
  from lt_never_true [of str_lt "Version_of ''1.0.0''" "Version_of ''2.0.0''"] h2 h3
  have b: "version_lt str_lt (Version_of ''1.0.0'') (Version_of ''2.0.0'') = Inr False" by simp
  from h1 h2 a b show ?thesis by blast
qed

text \<open>
  Claim C8. The comparator is the conjunction of a strict comparison of every field, not a
  lexicographic order: two versions that agree in every field but the base do not compare
  as less-than, whatever the comparison of their bases says (in particular when the first
  base is the smaller one), because the comparison of their equal stages is already false.
\<close>

theorem lt_base_only_not_less:
  "pv_lt b1 b2 = Inr bl \<Longrightarrow> version_lt pv_lt (v\<lparr>base := b1\<rparr>) (v\<lparr>base := b2\<rparr>) = Inr False"
  by (simp add: version_lt_def)

theorem lt_base_only_not_less_witness:
  "str_lt ''1.0.0'' ''2.0.0'' = Inr True
   \<and> version_lt str_lt ((Version_of ''0'')\<lparr>base := ''1.0.0''\<rparr>) ((Version_of ''0'')\<lparr>base := ''2.0.0''\<rparr>) = Inr False"
proof -
  have h: "str_lt ''1.0.0'' ''2.0.0'' = Inr True" by (simp add: str_lt_def)
  from lt_base_only_not_less [of str_lt "''1.0.0''" "''2.0.0''" True "Version_of ''0''"] h
  show ?thesis by blast
qed

section \<open>Properties of the pattern matcher\<close>

lemma scan_sources_no_base:
  assumes "Name ''base'' \<notin> set (group_keys pattern)"
  shows "scan_sources pattern sources newer =
     (if list_ex (\<lambda>s. re_search pattern s \<noteq> None) sources then Inl (ValueError MissingBaseGroup) else Inr None)"
  using assms by (induction sources arbitrary: newer) (auto simp: match_group_def split: option.splits)

text \<open>
  Claim C5, as stated, fails: the group is looked up only after a candidate has matched, so
  with a candidate that does not match, the error is the no-match error.
\<close>

theorem no_base_group_counterexample:
  "Name ''base'' \<notin> set (group_keys (RPlus digit))
   \<and> match_version_pattern (RPlus digit) [''abc''] False = Inl (ValueError NoMatchAny)
   \<and> match_version_pattern (RPlus digit) [''abc''] True = Inl (ValueError NoMatchLatest)"
  by code_simp

text \<open>
  Claim C5, amended. A pattern without a group called \<open>base\<close> makes the matcher fail
  for every candidate sequence and both settings of \<open>latest_source\<close>, but the error
  depends on the candidates: it is the missing-group error (ConfigurationError) exactly when
  one of the tested candidates matches the pattern; when none does, it is the no-match
  error (PatternError), or \<open>IndexError\<close> when \<open>latest_source\<close> is set and there is no
  candidate at all.
\<close>

theorem no_base_group_fails:
  assumes "Name ''base'' \<notin> set (group_keys pattern)"
  shows "match_version_pattern pattern sources latest_source =
     (if list_ex (\<lambda>s. re_search pattern s \<noteq> None) (tested_sources sources latest_source)
      then Inl (ValueError MissingBaseGroup)
      else if \<not> latest_source then Inl (ValueError NoMatchAny)
      else if sources = [] then Inl IndexError
      else Inl (ValueError NoMatchLatest))"
  using assms
  by (cases sources) (auto simp: match_version_pattern_def scan_sources_no_base tested_sources_def list_get_def norm_index_def)

theorem no_base_group_fails_witness:
  "Name ''base'' \<notin> set (group_keys (RPlus digit))
   \<and> match_version_pattern (RPlus digit) [''abc'', ''v12''] False = Inl (ValueError MissingBaseGroup)
   \<and> match_version_pattern (RPlus digit) [''abc'', ''v12''] True = Inl (ValueError NoMatchLatest)
   \<and> match_version_pattern (RPlus digit) [] True = Inl IndexError"
proof -
  have h: "Name ''base'' \<notin> set (group_keys (RPlus digit))" by (simp add: digit_def)
  have a: "list_ex (\<lambda>s. re_search (RPlus digit) s \<noteq> None) (tested_sources [''abc'', ''v12''] False)"
    by code_simp
  have b: "\<not> list_ex (\<lambda>s. re_search (RPlus digit) s \<noteq> None) (tested_sources [''abc'', ''v12''] True)"
    by code_simp
  have c: "\<not> list_ex (\<lambda>s. re_search (RPlus digit) s \<noteq> None) (tested_sources [] True)"
    by code_simp
  from no_base_group_fails [OF h, of "[''abc'', ''v12'']" False] a
       no_base_group_fails [OF h, of "[''abc'', ''v12'']" True] b
       no_base_group_fails [OF h, of "[]" True] c h
  show ?thesis by simp
qed

section \<open>Properties of the validator\<close>

lemma search_from_bol_later: "search_from (RSeq RBol r) (Suc k) s = None"
  by (induction s arbitrary: k) (simp_all add: first_match_def rmatch_struct)

lemma re_search_bol: "re_search (RSeq RBol r) s = first_match (RSeq RBol r) 0 s"
  by (cases s) (simp_all add: re_search_def search_from_bol_later split: option.splits)

lemma plus_then_eol:
  assumes "one_char a P" and "\<not> P (CHR 0x0A)"
  shows "(rmatch (RSeq (RPlus a) REol) (i, s, c) \<noteq> [])
         = (takeWhile P s \<noteq> [] \<and> (dropWhile P s = [] \<or> dropWhile P s = [CHR 0x0A]))"
proof
  assume "rmatch (RSeq (RPlus a) REol) (i, s, c) \<noteq> []"
  then obtain st where st: "st \<in> set (rmatch (RPlus a) (i, s, c))" "rmatch REol st \<noteq> []"
    by (auto simp: rmatch_struct)
  obtain j s' c' where [simp]: "st = (j, s', c')" by (cases st) auto
  from st(1) have "(j, s', c') \<in> set (rmatch (RPlus a) (i, s, c))" by simp
  from rmatch_plus_all [OF assms(1) this]
  obtain k where k: "1 \<le> k" "k \<le> length (takeWhile P s)" "s' = drop k s" by auto
  from st(2) have e: "s' = [] \<or> s' = [CHR 0x0A]" by (auto simp: rmatch_struct split: if_splits)
  have "k = length (takeWhile P s)"
  proof (rule ccontr)
    assume "k \<noteq> length (takeWhile P s)"
    with k have lt: "k < length (takeWhile P s)" by simp
    then have ks: "k < length s" using length_takeWhile_le [of P s] by simp
    from lt have "P (s ! k)" by (metis nth_mem set_takeWhileD takeWhile_nth)
    moreover have "s' = s ! k # drop (Suc k) s" using ks k(3) by (simp add: Cons_nth_drop_Suc)
    ultimately show False using e assms(2) by auto
  qed
  with k e show "takeWhile P s \<noteq> [] \<and> (dropWhile P s = [] \<or> dropWhile P s = [CHR 0x0A])"
    by (auto simp: dropWhile_eq_drop)
next
  assume h: "takeWhile P s \<noteq> [] \<and> (dropWhile P s = [] \<or> dropWhile P s = [CHR 0x0A])"
  then obtain zs where "rmatch (RPlus a) (i, s, c) = (i + length (takeWhile P s), dropWhile P s, c) # zs"
    using rmatch_plus_first [OF assms(1)] by blast
  with h show "rmatch (RSeq (RPlus a) REol) (i, s, c) \<noteq> []"
    by (auto simp: rmatch_struct)
qed

lemma newline_not_digit: "\<not> is_digit (CHR 0x0A)"
  by (simp add: is_digit_def less_eq_char_def)

lemma search_leading_zero: "(re_search LEADING_ZERO x \<noteq> None) = spec_leading_zero_segment x"
proof -
  have d: "one_char (RCls [CRange CHR ''0'' CHR ''9'']) is_digit"
    using one_char_cls [of "[CRange CHR ''0'' CHR ''9'']"] by (simp add: in_class_digit)
  have "(re_search LEADING_ZERO x \<noteq> None)
        = (rmatch (RSeq RBol (RSeq (RLit CHR ''0'') (RSeq (RPlus (RCls [CRange CHR ''0'' CHR ''9''])) REol))) (0, x, []) \<noteq> [])"
    by (simp add: LEADING_ZERO_def re_search_bol first_match_def split: list.splits)
  also have "\<dots> = spec_leading_zero_segment x"
  proof (cases x)
    case Nil
    then show ?thesis by (simp add: rmatch.simps(1,4,10) spec_leading_zero_segment_def)
  next
    case (Cons c r)
    show ?thesis
    proof (cases "c = CHR ''0''")
      case False
      with Cons show ?thesis by (simp add: rmatch.simps(1,4,10) spec_leading_zero_segment_def)
    next
      case True
      have "rmatch (RSeq RBol (RSeq (RLit CHR ''0'') (RSeq (RPlus (RCls [CRange CHR ''0'' CHR ''9''])) REol))) (0, x, [])
            = rmatch (RSeq (RPlus (RCls [CRange CHR ''0'' CHR ''9''])) REol) (Suc 0, r, [])"
        using True Cons by (simp add: rmatch.simps(1,4,10))
      then show ?thesis
        using True Cons plus_then_eol [OF d newline_not_digit, of "Suc 0" r "[]"]
        by (simp add: spec_leading_zero_segment_def)
    qed
  qed
  finally show ?thesis .
qed

text \<open>
  Claim C6. \<open>check_version\<close> with the SemVer style fails exactly when the string does not
  match the SemVer grammar or, after the text before the first \<open>+\<close> is cut at every dot
  and hyphen, some segment is a zero followed by one or more digits (the pattern
  \<^verbatim>\<open>^0[0-9]+$\<close>); otherwise it succeeds. In particular \<open>1.2.3-01\<close> fails and
  \<open>1.2.3-1\<close> succeeds.
\<close>

theorem semver_validation:
  "check_version ver SemVer =
     (if re_search VALID_SEMVER ver = None
         \<or> list_ex spec_leading_zero_segment
              (split_by (\<lambda>c. c = CHR ''.'' \<or> c = CHR ''-'') (takeWhile (\<lambda>c. c \<noteq> CHR ''+'') ver))
      then Inl (ValueError (NotConforming SemVer)) else Inr ())
   \<and> check_version ''1.2.3-01'' SemVer = Inl (ValueError (NotConforming SemVer))
   \<and> check_version ''1.2.3-1'' SemVer = Inr ()"
proof -
  have "check_version ''1.2.3-01'' SemVer = Inl (ValueError (NotConforming SemVer))" by code_simp
  moreover have "check_version ''1.2.3-1'' SemVer = Inr ()" by code_simp
  moreover have "check_version ver SemVer =
     (if re_search VALID_SEMVER ver = None
         \<or> list_ex spec_leading_zero_segment
              (split_by (\<lambda>c. c = CHR ''.'' \<or> c = CHR ''-'') (takeWhile (\<lambda>c. c \<noteq> CHR ''+'') ver))
      then Inl (ValueError (NotConforming SemVer)) else Inr ())"
    unfolding check_version_def style_pattern_def search_leading_zero
    by (simp add: Let_def)
  ultimately show ?thesis by blast
qed

section \<open>Properties of the PEP 440 serializer\<close>

text \<open>
  Claim C7, as stated, fails: a label outside the alias table does not pass through
  unchanged, it is lower-cased. \<open>RC\<close> is not in the table (in any case) and is rendered
  as \<open>rc\<close>.
\<close>

theorem pep440_stage_counterexample:
  "map_of alternative_stages (lower ''RC'') = None
   \<and> pep440_stage ''RC'' = ''rc''
   \<and> serialize_pep440 ''1.0.0'' (Some ''RC'') (Some 1) None None None None = Inr ''1.0.0rc1''
   \<and> ''1.0.0rc1'' \<noteq> ''1.0.0RC1''"
  by code_simp

text \<open>
  Claim C7, amended. In the PEP 440 serializer a set stage is lower-cased and then looked up
  in the alias table (alpha to a, beta to b, c, pre and preview to rc); a label that is not
  in the table passes through lower-cased; and a set stage with an absent revision is
  rendered with revision 0.
\<close>

theorem pep440_stage_normalized:
  "pep440_stage sg =
     (if lower sg = ''alpha'' then ''a''
      else if lower sg = ''beta'' then ''b''
      else if lower sg = ''c'' \<or> lower sg = ''pre'' \<or> lower sg = ''preview'' then ''rc''
      else lower sg)
   \<and> (serialize_pep440 b (Some sg) revn post dev ep md = Inr out \<longrightarrow>
        out = (case ep of None \<Rightarrow> [] | Some e \<Rightarrow> py_str e @ ''!'') @ b
              @ pep440_stage sg @ py_str (case revn of None \<Rightarrow> 0 | Some r \<Rightarrow> r)
              @ (case post of None \<Rightarrow> [] | Some p \<Rightarrow> ''.post'' @ py_str p)
              @ (case dev of None \<Rightarrow> [] | Some d \<Rightarrow> ''.dev'' @ py_str d)
              @ (case md of None \<Rightarrow> [] | Some m \<Rightarrow> if m = [] then [] else ''+'' @ join ''.'' m))"
  by (auto simp: pep440_stage_def alternative_stages_def serialize_pep440_def render_pep440_def Let_def
           split: sum.splits option.splits)

theorem pep440_stage_normalized_witness:
  "serialize_pep440 ''1.0.0'' (Some ''Preview'') None None None None None = Inr ''1.0.0rc0''
   \<and> pep440_stage ''Preview'' = ''rc''
   \<and> pep440_stage ''RC'' = ''rc''"
proof -
  have h: "serialize_pep440 ''1.0.0'' (Some ''Preview'') None None None None None = Inr ''1.0.0rc0''"
    by code_simp
  have l1: "lower ''Preview'' = ''preview''" by code_simp
  have l2: "lower ''RC'' = ''rc''" by code_simp
  from pep440_stage_normalized [of "''Preview''" "''1.0.0''" None None None None None "''1.0.0rc0''"]
       pep440_stage_normalized [of "''RC''" "''1.0.0''" None None None None None "''1.0.0rc0''"] h l1 l2
  show ?thesis by simp
qed

lemma serialize_pep440_checked:
  "(case serialize_pep440 b stg revn post dev ep md of Inl e \<Rightarrow> Inl e
    | Inr out \<Rightarrow> (case check_version out Pep440 of Inl e \<Rightarrow> Inl e | Inr _ \<Rightarrow> Inr out))
   = serialize_pep440 b stg revn post dev ep md"
  by (simp add: serialize_pep440_def Let_def split: sum.splits)

lemma serialize_pep440_default:
  assumes "st = None \<or> st = Some Pep440"
  shows "serialize self md df None st False tf =
     (case pep440_stage_post_dev (stage self) (revision self) of
        (stg, post, dev) \<Rightarrow>
          (case pep440_distance (distance self) False post dev of
             (post', dev') \<Rightarrow>
               serialize_pep440 (base self) stg (revision self) post' dev' (epoch self)
                 (Some (meta_parts_of self md df tf))))"
proof -
  have "(case st of None \<Rightarrow> Pep440 | Some x \<Rightarrow> x) = Pep440" using assms by auto
  then show ?thesis
    by (simp add: serialize_def Let_def serialize_pep440_checked split: prod.splits)
qed

text \<open>
  Claim C4, as stated, fails: a \<open>post\<close> stage that carries no revision is present, yet
  the distance is still rendered as post = distance with dev = 0, not added into the dev
  number.
\<close>

theorem pep440_post_stage_counterexample:
  "stage (Version ''1.0.0'' (Some (''post'', None)) 3 None None None None None None) = Some ''post''
   \<and> serialize (Version ''1.0.0'' (Some (''post'', None)) 3 None None None None None None)
         None False None (Some Pep440) False False
       = Inr ''1.0.0.post3.dev0''"
  by code_simp

text \<open>
  Claim C4, amended. When serializing in PEP 440 style (asked for or by default) without
  bumping, without a custom format and with distance > 0, the distance is rendered as
  post = distance with dev = 0 when neither a post nor a dev number is already present, that
  is, unless the stage is \<open>post\<close> or \<open>dev\<close> and carries a revision; otherwise it is added
  into the dev number (an absent dev number counting as 0). In particular
  \<open>Version("1.0.0", distance=3)\<close> serializes to \<open>1.0.0.post3.dev0\<close> when the commit is
  absent.
\<close>

theorem pep440_distance_post_dev:
  assumes "distance self > 0" and "st = None \<or> st = Some Pep440"
  shows "serialize self md df None st False tf =
     (case (if stage self = Some ''post'' then revision self else None,
            if stage self = Some ''dev'' then revision self else None) of
        (None, None) \<Rightarrow>
          serialize_pep440 (base self)
            (if stage self = Some ''post'' \<or> stage self = Some ''dev'' then None else stage self)
            (revision self) (Some (distance self)) (Some 0) (epoch self)
            (Some (meta_parts_of self md df tf))
      | (post, None) \<Rightarrow>
          serialize_pep440 (base self) None (revision self) post (Some (0 + distance self)) (epoch self)
            (Some (meta_parts_of self md df tf))
      | (post, Some dev) \<Rightarrow>
          serialize_pep440 (base self) None (revision self) post (Some (dev + distance self)) (epoch self)
            (Some (meta_parts_of self md df tf)))
   \<and> serialize (Version ''1.0.0'' None 3 None None None None None None) None False None (Some Pep440) False False
       = Inr ''1.0.0.post3.dev0''"
proof
  show "serialize self md df None st False tf =
     (case (if stage self = Some ''post'' then revision self else None,
            if stage self = Some ''dev'' then revision self else None) of
        (None, None) \<Rightarrow>
          serialize_pep440 (base self)
            (if stage self = Some ''post'' \<or> stage self = Some ''dev'' then None else stage self)
            (revision self) (Some (distance self)) (Some 0) (epoch self)
            (Some (meta_parts_of self md df tf))
      | (post, None) \<Rightarrow>
          serialize_pep440 (base self) None (revision self) post (Some (0 + distance self)) (epoch self)
            (Some (meta_parts_of self md df tf))
      | (post, Some dev) \<Rightarrow>
          serialize_pep440 (base self) None (revision self) post (Some (dev + distance self)) (epoch self)
            (Some (meta_parts_of self md df tf)))"
    using assms(1)
    by (auto simp: serialize_pep440_default [OF assms(2)] pep440_stage_post_dev_def pep440_distance_def
             split: option.splits)
next
  show "serialize (Version ''1.0.0'' None 3 None None None None None None) None False None (Some Pep440) False False
       = Inr ''1.0.0.post3.dev0''"
    by code_simp
qed

theorem pep440_distance_post_dev_witness:
  "serialize (Version ''1.0.0'' (Some (''rc'', Some 1)) 2 (Some ''abc'') None None None None None) None False None None False False
     = Inr ''1.0.0rc1.post2.dev0+abc''
   \<and> serialize (Version ''1.0.0'' (Some (''post'', Some 4)) 2 None None None None None None) None False None (Some Pep440) False False
     = Inr ''1.0.0.post4.dev2''
   \<and> serialize (Version ''1.0.0'' (Some (''dev'', Some 4)) 2 None None None None None None) None False None (Some Pep440) False False
     = Inr ''1.0.0.dev6''"
proof -
  let ?a = "Version ''1.0.0'' (Some (''rc'', Some 1)) 2 (Some ''abc'') None None None None None"
  let ?b = "Version ''1.0.0'' (Some (''post'', Some 4)) 2 None None None None None None"
  let ?c = "Version ''1.0.0'' (Some (''dev'', Some 4)) 2 None None None None None None"
  have da: "distance ?a > 0" and db: "distance ?b > 0" and dc: "distance ?c > 0"
    by (simp_all add: Version_def)
  have sa: "serialize_pep440 (base ?a) (if stage ?a = Some ''post'' \<or> stage ?a = Some ''dev'' then None else stage ?a)
            (revision ?a) (Some (distance ?a)) (Some 0) (epoch ?a) (Some (meta_parts_of ?a None False False))
            = Inr ''1.0.0rc1.post2.dev0+abc''"
    by code_simp
  have sb: "serialize_pep440 (base ?b) None (revision ?b) (revision ?b) (Some (0 + distance ?b)) (epoch ?b)
            (Some (meta_parts_of ?b None False False)) = Inr ''1.0.0.post4.dev2''"
    by code_simp
  have sc: "serialize_pep440 (base ?c) None (revision ?c) None (Some (4 + distance ?c)) (epoch ?c)
            (Some (meta_parts_of ?c None False False)) = Inr ''1.0.0.dev6''"
    by code_simp
  have ta: "stage ?a = Some ''rc''" and tb: "stage ?b = Some ''post''" "revision ?b = Some 4"
    and tc: "stage ?c = Some ''dev''" "revision ?c = Some 4"
    by (simp_all add: Version_def)
  from pep440_distance_post_dev [OF da, of None None False False] sa ta
  have a: "serialize ?a None False None None False False = Inr ''1.0.0rc1.post2.dev0+abc''"
    by simp
  from pep440_distance_post_dev [OF db, of "Some Pep440" None False False] sb tb
  have b: "serialize ?b None False None (Some Pep440) False False = Inr ''1.0.0.post4.dev2''"
    by simp
  from pep440_distance_post_dev [OF dc, of "Some Pep440" None False False] sc tc
  have c: "serialize ?c None False None (Some Pep440) False False = Inr ''1.0.0.dev6''"
    by simp
  from a b c show ?thesis by blast
qed

section \<open>Properties of the bump engine\<close>








section \<open>Serializing and parsing back\<close>























lemma names_view_nil [simp]: "names_view [] = Map.empty"
  by (rule ext) (simp add: names_view_def)

lemma names_view_index [simp]: "names_view ((Index k, v) # c) = names_view c"
  by (rule ext) (simp add: names_view_def)

lemma names_view_name [simp]: "names_view ((Name n, v) # c) = (names_view c)(n \<mapsto> v)"
  by (rule ext) (simp add: names_view_def)

lemma names_view_dots [simp]:
  "names_view (rev (map (\<lambda>s. (Index 4, f s)) ss) @ c) = names_view c"
proof (rule ext)
  fix n
  have "Name n \<notin> fst ` set (rev (map (\<lambda>s. (Index 4, f s)) ss))" by auto
  then have "map_of (rev (map (\<lambda>s. (Index 4, f s)) ss)) (Name n) = None"
    by (metis map_of_eq_None_iff)
  then show "names_view (rev (map (\<lambda>s. (Index 4, f s)) ss) @ c) n = names_view c n"
    by (simp add: names_view_def map_add_def)
qed























lemma names_view_dots_only [simp]:
  "names_view (rev (map (\<lambda>s. (Index 4, f s)) ss)) = Map.empty"
  using names_view_dots [of f ss "[]"] by simp




declare digits_of.simps [simp del]





lemma post_dev_letters: "list_all is_letter ''post''" "list_all is_letter ''dev''"
  by (simp_all add: is_letter_def less_eq_char_def)








end
